theory Spec2Isabelle
  imports Main
begin

section \<open>The admission webhook of pkg/scheduler/webhook.go\<close>

text \<open>
  The webhook decides, for a pod that is being created, whether the pod asks for a
  device that the scheduler manages, and if so rewrites \<open>spec.schedulerName\<close>.
  The model follows \<open>Handle\<close> line by line. The parts of the Kubernetes pod that
  \<open>Handle\<close> reads are kept, under the names of the Go fields.
\<close>

subsection \<open>Data\<close>

text \<open>A Go \<open>error\<close> is modelled by its message.\<close>

type_synonym error = string

text \<open>\<open>*bool\<close>: \<open>None\<close> is the nil pointer.\<close>

record SecurityContext =
  Privileged :: "bool option"

text \<open>
  \<open>corev1.Container\<close>: the name, the resource limits (resource name and quantity,
  read by the device plugins only) and the security context, a pointer that may be nil.
\<close>

record Container =
  Name :: string
  Limits :: "(string \<times> int) list"
  SecurityContext :: "SecurityContext option"

record PodSpec =
  SchedulerName :: string
  NodeName :: string
  Containers :: "Container list"

text \<open>\<open>corev1.Pod\<close>: the identifiers of the object metadata, and the spec.\<close>

record Pod =
  Namespace :: string
  PodName :: string
  UID :: string
  Spec :: PodSpec

text \<open>
  The package \<open>config\<close>: the two package variables \<open>config.SchedulerName\<close> and
  \<open>config.ForceOverwriteDefaultScheduler\<close>, which \<open>Handle\<close> only reads.
\<close>

record config =
  config_SchedulerName :: string
  config_ForceOverwriteDefaultScheduler :: bool

text \<open>
  Modelled from the spec: the interface \<open>device.Devices\<close> and \<open>device.GetDevices\<close>
  are declared in the package \<open>pkg/device\<close>, which is not part of the sources at hand.
  \<open>Handle\<close> uses one method of a device, \<open>MutateAdmission(c, pod)\<close>, which returns
  \<open>(found, err)\<close>. The spec gives its contract: a pure inspection of the container
  and the pod, with no mutation of its arguments, that reports whether a request for the
  device is recognised, or a recognition failure. A device is therefore its
  \<open>MutateAdmission\<close>, a function of the container and the pod, and the registered
  devices are a list, taken as a parameter of \<open>Handle\<close>.
\<close>

type_synonym Devices = "Container \<Rightarrow> Pod \<Rightarrow> bool \<times> error option"

text \<open>
  The responses of \<open>admission\<close>: \<open>Allowed(reason)\<close>, \<open>Denied(reason)\<close>,
  \<open>Errored(code, err)\<close>, and \<open>PatchResponseFromRaw(req.Object.Raw, marshaledPod)\<close>,
  an allowed response with the JSON patch from the object of the request to the pod that
  \<open>Handle\<close> marshals. \<open>Patched pod\<close> keeps that pod: the patch is empty when it is
  the pod of the request.
\<close>

datatype Response =
    Allowed string
  | Denied string
  | Errored int error
  | Patched Pod

text \<open>
  A call of \<open>MutateAdmission\<close>, named by the index of the container in
  \<open>pod.Spec.Containers\<close> and the index of the device in the list of devices. The
  model records the calls that \<open>Handle\<close> makes, in order.
\<close>

type_synonym call = "nat \<times> nat"

subsection \<open>Constants\<close>

text \<open>\<open>corev1.DefaultSchedulerName\<close> of k8s.io/api/core/v1.\<close>

definition DefaultSchedulerName :: string where
  "DefaultSchedulerName = ''default-scheduler''"

definition StatusBadRequest :: int where
  "StatusBadRequest = 400"

definition StatusInternalServerError :: int where
  "StatusInternalServerError = 500"

subsection \<open>The conditions of \<open>Handle\<close>\<close>

text \<open>
  Lines 67 to 69. In Go \<open>&&\<close> binds tighter than \<open>||\<close>, so the condition is
  \<open>(a && b) || (!f && (c || d))\<close>.
\<close>

definition different_scheduler :: "config \<Rightarrow> Pod \<Rightarrow> bool" where
  "different_scheduler cfg pod \<longleftrightarrow>
     (SchedulerName (Spec pod) \<noteq> [] \<and> SchedulerName (Spec pod) \<noteq> DefaultSchedulerName)
     \<or> (\<not> config_ForceOverwriteDefaultScheduler cfg \<and>
         (length (config_SchedulerName cfg) = 0 \<or>
          SchedulerName (Spec pod) \<noteq> config_SchedulerName cfg))"

text \<open>
  Lines 78 to 83: the container is skipped when its security context is not nil and
  the \<open>Privileged\<close> pointer in it is not nil and points to true.
\<close>

definition privileged :: "Container \<Rightarrow> bool" where
  "privileged ctr =
     (case SecurityContext ctr of
        None \<Rightarrow> False
      | Some sc \<Rightarrow> (case Privileged sc of None \<Rightarrow> False | Some b \<Rightarrow> b))"

subsection \<open>The scan\<close>

text \<open>
  Lines 86 to 94, the inner loop over the devices for the container \<open>c\<close> of index
  \<open>idx\<close>: an error ends the scan, otherwise \<open>hasResource\<close> accumulates \<open>found\<close>.
  The list of calls grows by one at each call of \<open>MutateAdmission\<close>.
\<close>

fun range_devices ::
  "(nat \<times> Devices) list \<Rightarrow> nat \<Rightarrow> Container \<Rightarrow> Pod \<Rightarrow> bool \<Rightarrow> call list
     \<Rightarrow> (error + bool) \<times> call list" where
  "range_devices [] idx c pod hasResource calls = (Inr hasResource, calls)"
| "range_devices ((j, val) # vals) idx c pod hasResource calls =
     (case val c pod of
        (found, Some err) \<Rightarrow> (Inl err, calls @ [(idx, j)])
      | (found, None) \<Rightarrow>
          range_devices vals idx c pod (hasResource \<or> found) (calls @ [(idx, j)]))"

text \<open>Lines 75 to 95, the loop over the containers with their indices.\<close>

fun range_containers ::
  "(nat \<times> Container) list \<Rightarrow> (nat \<times> Devices) list \<Rightarrow> Pod \<Rightarrow> bool \<Rightarrow> call list
     \<Rightarrow> (error + bool) \<times> call list" where
  "range_containers [] devs pod hasResource calls = (Inr hasResource, calls)"
| "range_containers ((idx, ctr) # rest) devs pod hasResource calls =
     (if privileged ctr then range_containers rest devs pod hasResource calls
      else
        (case range_devices devs idx ctr pod hasResource calls of
           (Inl err, calls') \<Rightarrow> (Inl err, calls')
         | (Inr hasResource', calls') \<Rightarrow>
             range_containers rest devs pod hasResource' calls'))"

text \<open>The scan of a pod: \<open>hasResource\<close> starts false, and no call has been made.\<close>

definition scan :: "Devices list \<Rightarrow> Pod \<Rightarrow> (error + bool) \<times> call list" where
  "scan devices pod =
     range_containers (enumerate 0 (Containers (Spec pod))) (enumerate 0 devices)
       pod False []"

subsection \<open>\<open>Handle\<close>\<close>

text \<open>
  Lines 97 to 114, the decision after a scan that ended with \<open>hasResource\<close>. The
  scheduler name is assigned before the node name is read; \<open>json.Marshal\<close> of a pod
  is taken to succeed.
\<close>

definition decide :: "config \<Rightarrow> Pod \<Rightarrow> bool \<Rightarrow> Response" where
  "decide cfg pod hasResource =
     (if \<not> hasResource then Patched pod
      else if length (config_SchedulerName cfg) > 0 then
        (let pod' = pod\<lparr>Spec := (Spec pod)\<lparr>SchedulerName := config_SchedulerName cfg\<rparr>\<rparr>
         in if NodeName (Spec pod') \<noteq> [] then Denied ''pod has node assigned''
            else Patched pod')
      else Patched pod)"

text \<open>
  \<open>Handle\<close>, from the result of \<open>h.decoder.Decode(req, pod)\<close>: the error of the
  decoder, or the pod. It returns the response and the calls of \<open>MutateAdmission\<close>
  that it made.
\<close>

definition Handle ::
  "config \<Rightarrow> Devices list \<Rightarrow> error + Pod \<Rightarrow> Response \<times> call list" where
  "Handle cfg devices decoded =
     (case decoded of
        Inl err \<Rightarrow> (Errored StatusBadRequest err, [])
      | Inr pod \<Rightarrow>
          if length (Containers (Spec pod)) = 0 then (Denied ''pod has no containers'', [])
          else if different_scheduler cfg pod
            then (Allowed ''pod already has different scheduler assigned'', [])
          else
            (case scan devices pod of
               (Inl err, calls) \<Rightarrow> (Errored StatusInternalServerError err, calls)
             | (Inr hasResource, calls) \<Rightarrow> (decide cfg pod hasResource, calls)))"

subsection \<open>The terms of the specification\<close>

text \<open>
  The specification calls \<open>Evaluate(spec, cfg, matchers)\<close> what \<open>Handle\<close> does with
  a decoded pod.
\<close>

definition Evaluate :: "Pod \<Rightarrow> config \<Rightarrow> Devices list \<Rightarrow> Response \<times> call list" where
  "Evaluate pod cfg matchers = Handle cfg matchers (Inr pod)"

text \<open>
  A workload reaches resource scanning when \<open>Handle\<close> passes both early returns.
\<close>

definition reaches_scanning :: "config \<Rightarrow> Pod \<Rightarrow> bool" where
  "reaches_scanning cfg pod \<longleftrightarrow>
     Containers (Spec pod) \<noteq> [] \<and> \<not> different_scheduler cfg pod"

text \<open>The pod with other containers and nothing else changed.\<close>

definition with_containers :: "Pod \<Rightarrow> Container list \<Rightarrow> Pod" where
  "with_containers pod ctrs = pod\<lparr>Spec := (Spec pod)\<lparr>Containers := ctrs\<rparr>\<rparr>"

text \<open>
  The two predicates of the specification, in its words:
  \<open>eligible := spec.schedulerName == "" || spec.schedulerName == <platform-default-name>\<close>
  and \<open>overrideable := cfg.forceOverwrite || (cfg.targetSchedulerName != "" &&
  spec.schedulerName == cfg.targetSchedulerName)\<close>.
\<close>

definition spec_eligible :: "Pod \<Rightarrow> bool" where
  "spec_eligible pod \<longleftrightarrow>
     SchedulerName (Spec pod) = [] \<or> SchedulerName (Spec pod) = DefaultSchedulerName"

definition spec_overrideable :: "config \<Rightarrow> Pod \<Rightarrow> bool" where
  "spec_overrideable cfg pod \<longleftrightarrow>
     config_ForceOverwriteDefaultScheduler cfg \<or>
     (config_SchedulerName cfg \<noteq> [] \<and>
      SchedulerName (Spec pod) = config_SchedulerName cfg)"

subsection \<open>The scan as one pass over its calls\<close>

text \<open>
  The two nested loops make one sequence of calls: for every container that is not
  privileged, in the order of the pod, every device, in the order of the list. A
  planned call is the container and the device with their indices. \<open>run_calls\<close> runs
  such a sequence the way the loops do; \<open>range_containers_run\<close> below shows that it
  computes what the loops compute.
\<close>

type_synonym planned = "(nat \<times> Container) \<times> (nat \<times> Devices)"

definition call_id :: "planned \<Rightarrow> call" where
  "call_id x = (fst (fst x), fst (snd x))"

definition call_result :: "Pod \<Rightarrow> planned \<Rightarrow> bool \<times> error option" where
  "call_result pod x = snd (snd x) (snd (fst x)) pod"

fun run_calls ::
  "Pod \<Rightarrow> planned list \<Rightarrow> bool \<Rightarrow> call list \<Rightarrow> (error + bool) \<times> call list" where
  "run_calls pod [] hasResource calls = (Inr hasResource, calls)"
| "run_calls pod (x # rest) hasResource calls =
     (case call_result pod x of
        (found, Some err) \<Rightarrow> (Inl err, calls @ [call_id x])
      | (found, None) \<Rightarrow> run_calls pod rest (hasResource \<or> found) (calls @ [call_id x]))"

definition schedule ::
  "(nat \<times> Container) list \<Rightarrow> (nat \<times> Devices) list \<Rightarrow> planned list" where
  "schedule ecs edevs = List.product (filter (\<lambda>(idx, ctr). \<not> privileged ctr) ecs) edevs"

text \<open>
  The calls of a scan that no error ends, in order, and the error of the call
  \<open>(idx, j)\<close>: what the device \<open>j\<close> returns as \<open>err\<close> for the container \<open>idx\<close>.
\<close>

definition planned_calls :: "Devices list \<Rightarrow> Pod \<Rightarrow> call list" where
  "planned_calls devices pod =
     [(idx, j). (idx, ctr) \<leftarrow> enumerate 0 (Containers (Spec pod)), \<not> privileged ctr,
                (j, val) \<leftarrow> enumerate 0 devices]"

definition call_error :: "Devices list \<Rightarrow> Pod \<Rightarrow> call \<Rightarrow> error option" where
  "call_error devices pod cl =
     snd ((devices ! snd cl) (Containers (Spec pod) ! fst cl) pod)"

subsection \<open>Example inputs\<close>

text \<open>
  Pods, containers, configurations and devices for the concrete instances below. The
  device \<open>nvidia\<close> recognises a limit on \<open>nvidia.com/gpu\<close> and fails on a negative
  quantity; \<open>picky\<close> fails on a pod of the default scheduler; \<open>strict\<close> fails on a
  privileged container; \<open>whole_pod\<close> reads the pod that it is given and fails when any
  container of the pod has a negative GPU quantity.
\<close>

definition mk_pod :: "string \<Rightarrow> string \<Rightarrow> Container list \<Rightarrow> Pod" where
  "mk_pod scheduler node ctrs =
     \<lparr>Namespace = ''default'', PodName = ''job'', UID = ''uid-1'',
      Spec = \<lparr>SchedulerName = scheduler, NodeName = node, Containers = ctrs\<rparr>\<rparr>"

definition gpu_container :: Container where
  "gpu_container =
     \<lparr>Name = ''cuda'', Limits = [(''nvidia.com/gpu'', 1)], SecurityContext = None\<rparr>"

definition plain_container :: Container where
  "plain_container = \<lparr>Name = ''web'', Limits = [(''cpu'', 2)], SecurityContext = None\<rparr>"

definition bad_container :: Container where
  "bad_container =
     \<lparr>Name = ''bad'', Limits = [(''nvidia.com/gpu'', - 1)], SecurityContext = None\<rparr>"

definition privileged_bad_container :: Container where
  "privileged_bad_container =
     \<lparr>Name = ''agent'', Limits = [(''nvidia.com/gpu'', - 1)],
      SecurityContext = Some \<lparr>Privileged = Some True\<rparr>\<rparr>"

definition privileged_gpu_container :: Container where
  "privileged_gpu_container =
     \<lparr>Name = ''driver'', Limits = [(''nvidia.com/gpu'', 1)],
      SecurityContext = Some \<lparr>Privileged = Some True\<rparr>\<rparr>"

definition nvidia :: Devices where
  "nvidia c pod =
     (case map_of (Limits c) ''nvidia.com/gpu'' of
        None \<Rightarrow> (False, None)
      | Some n \<Rightarrow> if n < 0 then (False, Some ''invalid gpu quantity'') else (True, None))"

definition picky :: Devices where
  "picky c pod =
     (if SchedulerName (Spec pod) = ''default-scheduler''
      then (False, Some ''gpu pod on the default scheduler'')
      else (True, None))"

definition strict :: Devices where
  "strict c pod =
     (if privileged c then (False, Some ''privileged container asks for a device'')
      else nvidia c pod)"

definition whole_pod :: Devices where
  "whole_pod c pod =
     (if list_ex (\<lambda>ctr. case map_of (Limits ctr) ''nvidia.com/gpu'' of
                          None \<Rightarrow> False | Some n \<Rightarrow> n < 0)
           (Containers (Spec pod))
      then (False, Some ''invalid gpu quantity in the pod'')
      else nvidia c pod)"

definition cfg_hami :: "bool \<Rightarrow> config" where
  "cfg_hami force =
     \<lparr>config_SchedulerName = ''hami-scheduler'',
      config_ForceOverwriteDefaultScheduler = force\<rparr>"

definition cfg_default :: config where
  "cfg_default =
     \<lparr>config_SchedulerName = ''default-scheduler'',
      config_ForceOverwriteDefaultScheduler = True\<rparr>"

section \<open>Lemmas\<close>

lemmas example_defs =
  mk_pod_def gpu_container_def plain_container_def bad_container_def
  privileged_bad_container_def privileged_gpu_container_def nvidia_def picky_def strict_def whole_pod_def cfg_hami_def cfg_default_def

lemmas Handle_defs =
  Evaluate_def Handle_def scan_def decide_def different_scheduler_def privileged_def
  reaches_scanning_def spec_eligible_def spec_overrideable_def
  DefaultSchedulerName_def StatusInternalServerError_def StatusBadRequest_def

subsection \<open>The loops and the pass over the calls\<close>

lemma range_devices_run:
  "range_devices devs idx c pod h calls = run_calls pod (map (Pair (idx, c)) devs) h calls"
  by (induction devs arbitrary: h calls)
     (auto simp: call_result_def call_id_def split: prod.splits option.splits)

lemma run_calls_append:
  "run_calls pod (xs @ ys) h calls =
     (case run_calls pod xs h calls of
        (Inl err, calls') \<Rightarrow> (Inl err, calls')
      | (Inr h', calls') \<Rightarrow> run_calls pod ys h' calls')"
  by (induction xs arbitrary: h calls) (auto split: prod.splits option.splits)

lemma range_containers_run:
  "range_containers ecs devs pod h calls = run_calls pod (schedule ecs devs) h calls"
proof (induction ecs arbitrary: h calls)
  case Nil
  show ?case by (simp add: schedule_def)
next
  case (Cons p ecs)
  obtain idx ctr where p: "p = (idx, ctr)" by (cases p)
  show ?case
  proof (cases "privileged ctr")
    case True
    with Cons p show ?thesis by (simp add: schedule_def)
  next
    case False
    have "schedule (p # ecs) devs = map (Pair (idx, ctr)) devs @ schedule ecs devs"
      using False p by (simp add: schedule_def)
    with Cons False p show ?thesis
      by (simp add: run_calls_append range_devices_run split: prod.splits sum.splits)
  qed
qed

lemma run_calls_ok:
  "\<forall>x\<in>set xs. snd (call_result pod x) = None \<Longrightarrow>
   run_calls pod xs h calls =
     (Inr (h \<or> (\<exists>x\<in>set xs. fst (call_result pod x))), calls @ map call_id xs)"
  by (induction xs arbitrary: h calls) (auto split: prod.splits option.splits)

lemma run_calls_first_failure:
  "\<forall>y\<in>set ys. snd (call_result pod y) = None \<Longrightarrow> snd (call_result pod x) = Some err \<Longrightarrow>
   run_calls pod (ys @ x # zs) h calls = (Inl err, calls @ map call_id ys @ [call_id x])"
  by (cases "call_result pod x") (auto simp: run_calls_append run_calls_ok)

lemma set_schedule:
  "x \<in> set (schedule (enumerate 0 cs) (enumerate 0 ms)) \<longleftrightarrow>
     (\<exists>i j. i < length cs \<and> j < length ms \<and> \<not> privileged (cs ! i) \<and>
            x = ((i, cs ! i), (j, ms ! j)))"
  by (cases x) (auto simp: schedule_def in_set_enumerate_eq)

lemma scan_run:
  "scan ms pod =
     run_calls pod (schedule (enumerate 0 (Containers (Spec pod))) (enumerate 0 ms)) False []"
  by (simp add: scan_def range_containers_run)

lemma planned_calls_schedule_gen:
  "concat (map (\<lambda>(idx, ctr). if privileged ctr then [] else map (\<lambda>(j, val). (idx, j)) edevs) ecs)
     = map call_id (schedule ecs edevs)"
  by (induction ecs) (auto simp: schedule_def call_id_def)

lemma planned_calls_schedule:
  "planned_calls ms pod =
     map call_id (schedule (enumerate 0 (Containers (Spec pod))) (enumerate 0 ms))"
  unfolding planned_calls_def planned_calls_schedule_gen[symmetric]
  by (rule arg_cong[where f=concat], rule map_cong) (auto simp: map_concat comp_def split: prod.splits)


subsection \<open>The scan and what \<open>Handle\<close> returns\<close>


lemma Evaluate_scanning:
  "reaches_scanning cfg pod \<Longrightarrow>
   Evaluate pod cfg ms =
     (case scan ms pod of
        (Inl err, calls) \<Rightarrow> (Errored StatusInternalServerError err, calls)
      | (Inr h, calls) \<Rightarrow> (decide cfg pod h, calls))"
  by (simp add: reaches_scanning_def Evaluate_def Handle_def)


lemma decide_Patched:
  "decide cfg pod h = Patched pod' \<Longrightarrow>
   pod' = pod \<or>
   (h \<and> config_SchedulerName cfg \<noteq> [] \<and> NodeName (Spec pod) = [] \<and>
    pod' = pod\<lparr>Spec := (Spec pod)\<lparr>SchedulerName := config_SchedulerName cfg\<rparr>\<rparr>)"
  by (auto simp: decide_def Let_def split: if_splits)

lemma call_error_call_id:
  "x \<in> set (schedule (enumerate 0 (Containers (Spec pod))) (enumerate 0 ms)) \<Longrightarrow>
   call_error ms pod (call_id x) = snd (call_result pod x)"
  by (auto simp: set_schedule call_error_def call_id_def call_result_def)

lemma in_schedule_iff:
  "(\<exists>x\<in>set (schedule (enumerate 0 cs) (enumerate 0 ms)). P (snd (snd x) (snd (fst x)) pod)) \<longleftrightarrow>
   (\<exists>c\<in>set cs. \<not> privileged c \<and> (\<exists>m\<in>set ms. P (m c pod)))"
  (is "?L \<longleftrightarrow> ?R")
proof
  assume ?L
  then obtain x where x: "x \<in> set (schedule (enumerate 0 cs) (enumerate 0 ms))"
    and P: "P (snd (snd x) (snd (fst x)) pod)" by blast
  from x obtain i j where ij: "i < length cs" "j < length ms" "\<not> privileged (cs ! i)"
    and xeq: "x = ((i, cs ! i), (j, ms ! j))"
    unfolding set_schedule by blast
  from P xeq have "P ((ms ! j) (cs ! i) pod)" by simp
  moreover from ij have "cs ! i \<in> set cs" "ms ! j \<in> set ms" by simp_all
  ultimately show ?R using ij(3) by blast
next
  assume ?R
  then obtain c m where c: "c \<in> set cs" "\<not> privileged c" and m: "m \<in> set ms"
    and P: "P (m c pod)" by blast
  from c(1) obtain i where i: "i < length cs" "cs ! i = c" by (auto simp: in_set_conv_nth)
  from m obtain j where j: "j < length ms" "ms ! j = m" by (auto simp: in_set_conv_nth)
  have "((i, cs ! i), (j, ms ! j)) \<in> set (schedule (enumerate 0 cs) (enumerate 0 ms))"
    unfolding set_schedule using i j c(2) by blast
  moreover have "P (snd (snd ((i, cs ! i), (j, ms ! j))) (snd (fst ((i, cs ! i), (j, ms ! j)))) pod)"
    using P i j by simp
  ultimately show ?L by (rule rev_bexI)
qed

lemma scan_ok:
  assumes "\<forall>c\<in>set (Containers (Spec pod)). \<not> privileged c \<longrightarrow> (\<forall>m\<in>set ms. snd (m c pod) = None)"
  shows "scan ms pod =
     (Inr (\<exists>c\<in>set (Containers (Spec pod)). \<not> privileged c \<and> (\<exists>m\<in>set ms. fst (m c pod))),
      planned_calls ms pod)"
proof -
  let ?xs = "schedule (enumerate 0 (Containers (Spec pod))) (enumerate 0 ms)"
  have "\<not> (\<exists>x\<in>set ?xs. snd (snd (snd x) (snd (fst x)) pod) \<noteq> None)"
    unfolding in_schedule_iff [where P = "\<lambda>r. snd r \<noteq> None"] using assms by auto
  then have ok: "\<forall>x\<in>set ?xs. snd (call_result pod x) = None"
    by (simp add: call_result_def)
  have "(\<exists>x\<in>set ?xs. fst (call_result pod x)) \<longleftrightarrow>
        (\<exists>c\<in>set (Containers (Spec pod)). \<not> privileged c \<and> (\<exists>m\<in>set ms. fst (m c pod)))"
    unfolding call_result_def by (rule in_schedule_iff [where P = fst])
  then show ?thesis
    by (simp add: scan_run run_calls_ok [OF ok] planned_calls_schedule)
qed

lemma run_calls_Inl:
  "fst (run_calls pod xs h calls) = Inl err \<Longrightarrow> \<exists>x\<in>set xs. snd (call_result pod x) = Some err"
  by (induction xs arbitrary: h calls) (auto split: prod.splits option.splits)

lemma scan_Inl:
  assumes "fst (scan ms pod) = Inl err"
  shows "\<exists>c\<in>set (Containers (Spec pod)). \<not> privileged c \<and> (\<exists>m\<in>set ms. snd (m c pod) = Some err)"
proof -
  from assms have "\<exists>x\<in>set (schedule (enumerate 0 (Containers (Spec pod))) (enumerate 0 ms)).
      snd (snd (snd x) (snd (fst x)) pod) = Some err"
    using run_calls_Inl [of pod _ False "[]" err] by (simp add: scan_run call_result_def)
  then show ?thesis
    unfolding in_schedule_iff [where P = "\<lambda>r. snd r = Some err"] .
qed

lemma run_calls_trace:
  "set (snd (run_calls pod xs h calls)) \<subseteq> set calls \<union> call_id ` set xs"
proof (induction xs arbitrary: h calls)
  case Nil
  show ?case by simp
next
  case (Cons x xs)
  obtain found e where r: "call_result pod x = (found, e)" by (cases "call_result pod x")
  show ?case
  proof (cases e)
    case None
    with r Cons.IH [of "h \<or> found" "calls @ [call_id x]"] show ?thesis by auto
  next
    case (Some err)
    with r show ?thesis by auto
  qed
qed

lemma scan_trace:
  "cl \<in> set (snd (scan ms pod)) \<Longrightarrow>
   fst cl < length (Containers (Spec pod)) \<and> \<not> privileged (Containers (Spec pod) ! fst cl) \<and>
   snd cl < length ms"
  using run_calls_trace [of pod "schedule (enumerate 0 (Containers (Spec pod))) (enumerate 0 ms)" False "[]"]
  by (auto simp: scan_run set_schedule call_id_def)

lemma Evaluate_trace:
  "snd (Evaluate pod cfg ms) = [] \<or> snd (Evaluate pod cfg ms) = snd (scan ms pod)"
  by (auto simp: Evaluate_def Handle_def split: prod.splits sum.splits)

lemma Evaluate_Errored:
  "fst (Evaluate pod cfg ms) = Errored code err \<Longrightarrow>
   code = StatusInternalServerError \<and> fst (scan ms pod) = Inl err"
  by (auto simp: Evaluate_def Handle_def decide_def Let_def split: prod.splits sum.splits if_splits)

lemma range_devices_cong2:
  "length ms' = length ms \<Longrightarrow> (\<forall>j<length ms. (ms' ! j) c' pod' = (ms ! j) c pod) \<Longrightarrow>
   range_devices (enumerate n ms') idx c' pod' h calls =
   range_devices (enumerate n ms) idx c pod h calls"
proof (induction ms' ms arbitrary: n h calls rule: list_induct2)
  case Nil
  show ?case by simp
next
  case (Cons m' ms' m ms)
  from Cons.prems have hd: "m' c' pod' = m c pod" by auto
  from Cons.prems have tl: "\<forall>j<length ms. (ms' ! j) c' pod' = (ms ! j) c pod" by auto
  show ?case using Cons.IH [OF tl] hd by (simp split: prod.splits option.splits)
qed

lemma range_containers_cong2:
  "length cs' = length cs \<Longrightarrow> length ms' = length ms \<Longrightarrow>
   (\<forall>i<length cs. privileged (cs' ! i) = privileged (cs ! i)) \<Longrightarrow>
   (\<forall>i<length cs. \<not> privileged (cs ! i) \<longrightarrow>
      (\<forall>j<length ms. (ms' ! j) (cs' ! i) pod' = (ms ! j) (cs ! i) pod)) \<Longrightarrow>
   range_containers (enumerate n cs') (enumerate 0 ms') pod' h calls =
   range_containers (enumerate n cs) (enumerate 0 ms) pod h calls"
proof (induction cs' cs arbitrary: n h calls rule: list_induct2)
  case Nil
  show ?case by simp
next
  case (Cons c' cs' c cs)
  from Cons.prems(2) have p0: "privileged c' = privileged c" by auto
  from Cons.prems(2) have ptl: "\<forall>i<length cs. privileged (cs' ! i) = privileged (cs ! i)"
    by auto
  from Cons.prems(3) have a0:
    "\<not> privileged c \<longrightarrow> (\<forall>j<length ms. (ms' ! j) c' pod' = (ms ! j) c pod)" by auto
  from Cons.prems(3) have atl: "\<forall>i<length cs. \<not> privileged (cs ! i) \<longrightarrow>
      (\<forall>j<length ms. (ms' ! j) (cs' ! i) pod' = (ms ! j) (cs ! i) pod)" by auto
  note IH = Cons.IH [OF Cons.prems(1) ptl atl]
  show ?case
  proof (cases "privileged c")
    case True
    with p0 IH show ?thesis by simp
  next
    case False
    with a0 have "range_devices (enumerate 0 ms') n c' pod' h calls =
                  range_devices (enumerate 0 ms) n c pod h calls"
      by (simp add: range_devices_cong2 [OF Cons.prems(1)])
    with False p0 IH show ?thesis by (simp split: prod.splits sum.splits)
  qed
qed

lemma scan_cong2:
  assumes "length ms' = length ms"
    and "length ctrs' = length (Containers (Spec pod))"
    and "\<forall>i<length ctrs'. privileged (ctrs' ! i) = privileged (Containers (Spec pod) ! i)"
    and "\<forall>i<length ctrs'. \<not> privileged (Containers (Spec pod) ! i) \<longrightarrow>
           (\<forall>j<length ms. (ms' ! j) (ctrs' ! i) (with_containers pod ctrs')
                          = (ms ! j) (Containers (Spec pod) ! i) pod)"
  shows "scan ms' (with_containers pod ctrs') = scan ms pod"
proof -
  have "Containers (Spec (with_containers pod ctrs')) = ctrs'"
    by (simp add: with_containers_def)
  then show ?thesis
    unfolding scan_def
    using range_containers_cong2 [OF assms(2) assms(1), of "with_containers pod ctrs'" pod 0 False "[]"]
      assms(2,3,4) by simp
qed

lemma Evaluate_Patched:
  assumes "fst (Evaluate pod cfg ms) = Patched pod'"
  shows "reaches_scanning cfg pod \<and>
         (\<exists>h. fst (scan ms pod) = Inr h \<and> decide cfg pod h = Patched pod')"
  using assms
  by (auto simp: Evaluate_def Handle_def reaches_scanning_def split: if_splits prod.splits sum.splits)


lemma scan_first_failure:
  assumes "idx < length (Containers (Spec pod))"
    and "\<not> privileged (Containers (Spec pod) ! idx)"
    and "j < length ms"
    and "call_error ms pod (idx, j) = Some err"
  shows "\<exists>k cause.
           k < length (planned_calls ms pod) \<and>
           call_error ms pod (planned_calls ms pod ! k) = Some cause \<and>
           (\<forall>k'<k. call_error ms pod (planned_calls ms pod ! k') = None) \<and>
           scan ms pod = (Inl cause, take (Suc k) (planned_calls ms pod))"
proof -
  let ?cs = "Containers (Spec pod)"
  let ?xs = "schedule (enumerate 0 ?cs) (enumerate 0 ms)"
  let ?x0 = "((idx, ?cs ! idx), (j, ms ! j))"
  have "?x0 \<in> set ?xs"
    unfolding set_schedule using assms(1-3) by blast
  moreover have "snd (call_result pod ?x0) \<noteq> None"
    using assms(4) by (simp add: call_result_def call_error_def)
  ultimately have "\<exists>x\<in>set ?xs. snd (call_result pod x) \<noteq> None" by blast
  then obtain ys x zs where split: "?xs = ys @ x # zs"
    and bad: "snd (call_result pod x) \<noteq> None"
    and good: "\<forall>y\<in>set ys. \<not> snd (call_result pod y) \<noteq> None"
    using split_list_first_prop [of ?xs "\<lambda>x. snd (call_result pod x) \<noteq> None"] by blast
  from bad obtain cause where cause: "snd (call_result pod x) = Some cause" by blast
  from good have good': "\<forall>y\<in>set ys. snd (call_result pod y) = None" by simp
  have planned: "planned_calls ms pod = map call_id ys @ call_id x # map call_id zs"
    by (simp add: planned_calls_schedule split)
  have inx: "x \<in> set ?xs" and iny: "\<And>y. y \<in> set ys \<Longrightarrow> y \<in> set ?xs"
    by (simp_all add: split)
  have k: "length ys < length (planned_calls ms pod)"
    by (simp add: planned)
  have at_k: "planned_calls ms pod ! length ys = call_id x"
    by (simp add: planned nth_append)
  have c1: "call_error ms pod (planned_calls ms pod ! length ys) = Some cause"
    using call_error_call_id [OF inx] cause by (simp add: at_k)
  have c2: "\<forall>k'<length ys. call_error ms pod (planned_calls ms pod ! k') = None"
  proof (intro allI impI)
    fix k' assume k': "k' < length ys"
    then have "planned_calls ms pod ! k' = call_id (ys ! k')"
      by (simp add: planned nth_append)
    moreover from k' have "ys ! k' \<in> set ys" by simp
    ultimately show "call_error ms pod (planned_calls ms pod ! k') = None"
      using call_error_call_id [OF iny] good' by simp
  qed
  have "scan ms pod = (Inl cause, map call_id ys @ [call_id x])"
    using run_calls_first_failure [OF good' cause, of zs False "[]"]
    by (simp add: scan_run split)
  then have c3: "scan ms pod = (Inl cause, take (Suc (length ys)) (planned_calls ms pod))"
    by (simp add: planned)
  from k c1 c2 c3 show ?thesis by blast
qed

text \<open>
  When the scan ends without an error: no device fails on a container that is not
  privileged, and \<open>hasResource\<close> says whether some device found its resource on such a
  container.
\<close>

lemma scan_Inr_iff:
  "fst (scan ms pod) = Inr h \<longleftrightarrow>
     (\<forall>c\<in>set (Containers (Spec pod)). \<not> privileged c \<longrightarrow> (\<forall>m\<in>set ms. snd (m c pod) = None))
     \<and> h = (\<exists>c\<in>set (Containers (Spec pod)). \<not> privileged c \<and> (\<exists>m\<in>set ms. fst (m c pod)))"
  (is "?L \<longleftrightarrow> ?ok \<and> ?h")
proof
  assume L: ?L
  have ok: ?ok
  proof (rule ccontr)
    assume "\<not> ?ok"
    then obtain c m where c: "c \<in> set (Containers (Spec pod))" "\<not> privileged c"
      and m: "m \<in> set ms" and bad: "snd (m c pod) \<noteq> None" by blast
    from c(1) obtain idx where idx: "idx < length (Containers (Spec pod))"
      "Containers (Spec pod) ! idx = c" by (auto simp: in_set_conv_nth)
    from m obtain j where j: "j < length ms" "ms ! j = m" by (auto simp: in_set_conv_nth)
    from bad obtain err where "call_error ms pod (idx, j) = Some err"
      using idx(2) j(2) by (auto simp: call_error_def)
    from scan_first_failure [OF idx(1) _ j(1) this] c(2) idx(2)
    obtain cause calls where "scan ms pod = (Inl cause, calls)" by auto
    with L show False by simp
  qed
  with L show "?ok \<and> ?h" by (auto simp: scan_ok [OF ok])
next
  assume "?ok \<and> ?h"
  then show ?L by (simp add: scan_ok)
qed

section \<open>Properties\<close>








text \<open>
  C3. For a pod that reaches the scan and whose scan ends with \<open>hasResource\<close> true,
  when the target scheduler name is not empty and the pod has a node name, \<open>Handle\<close>
  denies with the reason "pod has node assigned".
\<close>

theorem C3_node_assigned_denied:
  assumes "reaches_scanning cfg pod"
    and "fst (scan matchers pod) = Inr True"
    and "config_SchedulerName cfg \<noteq> []"
    and "NodeName (Spec pod) \<noteq> []"
  shows "fst (Evaluate pod cfg matchers) = Denied ''pod has node assigned''"
proof -
  obtain r calls where s: "scan matchers pod = (r, calls)" by (cases "scan matchers pod")
  with assms(2) have "scan matchers pod = (Inr True, calls)" by simp
  then show ?thesis
    using assms(3,4) by (simp add: Evaluate_scanning [OF assms(1)] decide_def)
qed

text \<open>An instance: the pod of C2 with the node name "node-7".\<close>

theorem C3_node_assigned_denied_witness:
  "reaches_scanning (cfg_hami True) (mk_pod [] ''node-7'' [gpu_container])
   \<and> fst (scan [nvidia] (mk_pod [] ''node-7'' [gpu_container])) = Inr True
   \<and> config_SchedulerName (cfg_hami True) \<noteq> []
   \<and> NodeName (Spec (mk_pod [] ''node-7'' [gpu_container])) \<noteq> []
   \<and> fst (Evaluate (mk_pod [] ''node-7'' [gpu_container]) (cfg_hami True) [nvidia])
       = Denied ''pod has node assigned''"
proof -
  let ?pod = "mk_pod [] ''node-7'' [gpu_container]"
  have h1: "reaches_scanning (cfg_hami True) ?pod"
    by (simp add: Handle_defs example_defs)
  have h2: "fst (scan [nvidia] ?pod) = Inr True"
    by (simp add: scan_def privileged_def example_defs)
  have h3: "config_SchedulerName (cfg_hami True) \<noteq> []" by (simp add: cfg_hami_def)
  have h4: "NodeName (Spec ?pod) \<noteq> []" by (simp add: mk_pod_def)
  from C3_node_assigned_denied [OF h1 h2 h3 h4] h1 h2 h3 h4 show ?thesis by blast
qed

text \<open>
  C4. For a pod that reaches the scan, if some device fails on some container that is
  not privileged, \<open>Handle\<close> returns the error response, with status 500, that carries
  the failure of the first failing call in the order of the scan, whatever the other
  calls find; the calls made are the planned calls up to and including that one, so no
  container and no device is asked after it.
\<close>

theorem C4_matcher_failure_aborts:
  assumes "reaches_scanning cfg pod"
    and "idx < length (Containers (Spec pod))"
    and "\<not> privileged (Containers (Spec pod) ! idx)"
    and "j < length matchers"
    and "call_error matchers pod (idx, j) = Some err"
  shows "\<exists>k cause.
           k < length (planned_calls matchers pod) \<and>
           call_error matchers pod (planned_calls matchers pod ! k) = Some cause \<and>
           (\<forall>k'<k. call_error matchers pod (planned_calls matchers pod ! k') = None) \<and>
           Evaluate pod cfg matchers =
             (Errored StatusInternalServerError cause,
              take (Suc k) (planned_calls matchers pod))"
proof -
  from scan_first_failure [OF assms(2-5)] obtain k cause where
    k: "k < length (planned_calls matchers pod)"
    and c1: "call_error matchers pod (planned_calls matchers pod ! k) = Some cause"
    and c2: "\<forall>k'<k. call_error matchers pod (planned_calls matchers pod ! k') = None"
    and s: "scan matchers pod = (Inl cause, take (Suc k) (planned_calls matchers pod))"
    by blast
  from s have "Evaluate pod cfg matchers =
      (Errored StatusInternalServerError cause, take (Suc k) (planned_calls matchers pod))"
    by (simp add: Evaluate_scanning [OF assms(1)])
  with k c1 c2 show ?thesis by blast
qed

text \<open>
  An instance: the second of three containers has a negative GPU quantity. The first
  and the second container are asked, the third, which has a valid GPU limit, is not.
\<close>

theorem C4_matcher_failure_aborts_witness:
  "reaches_scanning (cfg_hami True) (mk_pod [] [] [gpu_container, bad_container, gpu_container])
   \<and> 1 < length (Containers (Spec (mk_pod [] [] [gpu_container, bad_container, gpu_container])))
   \<and> \<not> privileged (Containers (Spec (mk_pod [] [] [gpu_container, bad_container, gpu_container])) ! 1)
   \<and> 0 < length [nvidia]
   \<and> call_error [nvidia] (mk_pod [] [] [gpu_container, bad_container, gpu_container]) (1, 0)
       = Some ''invalid gpu quantity''
   \<and> (\<exists>k cause.
         k < length (planned_calls [nvidia] (mk_pod [] [] [gpu_container, bad_container, gpu_container])) \<and>
         call_error [nvidia] (mk_pod [] [] [gpu_container, bad_container, gpu_container])
           (planned_calls [nvidia] (mk_pod [] [] [gpu_container, bad_container, gpu_container]) ! k)
           = Some cause \<and>
         (\<forall>k'<k. call_error [nvidia] (mk_pod [] [] [gpu_container, bad_container, gpu_container])
           (planned_calls [nvidia] (mk_pod [] [] [gpu_container, bad_container, gpu_container]) ! k')
           = None) \<and>
         Evaluate (mk_pod [] [] [gpu_container, bad_container, gpu_container]) (cfg_hami True) [nvidia] =
           (Errored StatusInternalServerError cause,
            take (Suc k) (planned_calls [nvidia] (mk_pod [] [] [gpu_container, bad_container, gpu_container]))))
   \<and> Evaluate (mk_pod [] [] [gpu_container, bad_container, gpu_container]) (cfg_hami True) [nvidia]
       = (Errored 500 ''invalid gpu quantity'', [(0, 0), (1, 0)])"
proof -
  let ?pod = "mk_pod [] [] [gpu_container, bad_container, gpu_container]"
  have h1: "reaches_scanning (cfg_hami True) ?pod"
    by (simp add: Handle_defs example_defs)
  have h2: "1 < length (Containers (Spec ?pod))" by (simp add: mk_pod_def)
  have h3: "\<not> privileged (Containers (Spec ?pod) ! 1)"
    by (simp add: mk_pod_def privileged_def bad_container_def)
  have h4: "0 < length [nvidia]" by simp
  have h5: "call_error [nvidia] ?pod (1, 0) = Some ''invalid gpu quantity''"
    by (simp add: call_error_def mk_pod_def bad_container_def nvidia_def)
  have v: "Evaluate ?pod (cfg_hami True) [nvidia]
       = (Errored 500 ''invalid gpu quantity'', [(0, 0), (1, 0)])"
    by (simp add: Handle_defs example_defs)
  from C4_matcher_failure_aborts [OF h1 h2 h3 h4 h5] h1 h2 h3 h4 h5 v show ?thesis by blast
qed

text \<open>
  C5. A pod with no containers is denied with the reason "pod has no containers", for
  every configuration and every list of devices, and no device is asked.
\<close>

theorem C5_no_containers_denied:
  "Containers (Spec pod) = [] \<Longrightarrow>
     Evaluate pod cfg matchers = (Denied ''pod has no containers'', [])"
  by (simp add: Evaluate_def Handle_def)

text \<open>
  An instance: a pod of another scheduler, bound to a node, with a device that always
  fails.
\<close>

theorem C5_no_containers_denied_witness:
  "Containers (Spec (mk_pod ''custom-other'' ''node-7'' [])) = []
   \<and> Evaluate (mk_pod ''custom-other'' ''node-7'' []) (cfg_hami True)
         [\<lambda>c p. (True, Some ''bad quantity'')]
       = (Denied ''pod has no containers'', [])"
proof -
  have h: "Containers (Spec (mk_pod ''custom-other'' ''node-7'' [])) = []"
    by (simp add: mk_pod_def)
  from C5_no_containers_denied [OF h] h show ?thesis by blast
qed

text \<open>
  C6. For a pod that reaches the scan and in which every container has a security
  context whose \<open>Privileged\<close> is set and true, \<open>Handle\<close> asks no device and returns
  the patch response for the unchanged pod, whatever the devices would answer.
\<close>

theorem C6_all_privileged_unchanged:
  assumes "reaches_scanning cfg pod"
    and "\<forall>c\<in>set (Containers (Spec pod)).
           \<exists>sc. SecurityContext c = Some sc \<and> Privileged sc = Some True"
  shows "Evaluate pod cfg matchers = (Patched pod, [])
       \<and> scan matchers pod = (Inr False, [])"
proof -
  from assms(2) have all: "\<forall>c\<in>set (Containers (Spec pod)). privileged c"
    by (auto simp: privileged_def)
  then have none: "\<forall>c\<in>set (Containers (Spec pod)). \<not> privileged c \<longrightarrow>
      (\<forall>m\<in>set matchers. snd (m c pod) = None)" by simp
  have "filter (\<lambda>(idx, ctr). \<not> privileged ctr) (enumerate 0 (Containers (Spec pod))) = []"
    using all by (auto simp: filter_empty_conv in_set_enumerate_eq)
  then have "planned_calls matchers pod = []"
    by (simp add: planned_calls_schedule schedule_def)
  with all show ?thesis
    by (simp add: Evaluate_scanning [OF assms(1)] scan_ok [OF none] decide_def)
qed

text \<open>
  An instance: two privileged containers, one with a GPU limit that the device would
  recognise and one with a GPU limit on which the device would fail.
\<close>

theorem C6_all_privileged_unchanged_witness:
  "reaches_scanning (cfg_hami True)
     (mk_pod [] [] [privileged_gpu_container, privileged_bad_container])
   \<and> nvidia privileged_gpu_container
       (mk_pod [] [] [privileged_gpu_container, privileged_bad_container]) = (True, None)
   \<and> snd (nvidia privileged_bad_container
       (mk_pod [] [] [privileged_gpu_container, privileged_bad_container]))
       = Some ''invalid gpu quantity''
   \<and> Evaluate (mk_pod [] [] [privileged_gpu_container, privileged_bad_container])
       (cfg_hami True) [nvidia]
       = (Patched (mk_pod [] [] [privileged_gpu_container, privileged_bad_container]), [])"
proof -
  let ?pod = "mk_pod [] [] [privileged_gpu_container, privileged_bad_container]"
  have h1: "reaches_scanning (cfg_hami True) ?pod"
    by (simp add: Handle_defs example_defs)
  have h2: "\<forall>c\<in>set (Containers (Spec ?pod)).
           \<exists>sc. SecurityContext c = Some sc \<and> Privileged sc = Some True"
    by (simp add: mk_pod_def privileged_bad_container_def privileged_gpu_container_def)
  have v1: "nvidia privileged_gpu_container ?pod = (True, None)"
    by (simp add: nvidia_def privileged_gpu_container_def)
  have v2: "snd (nvidia privileged_bad_container ?pod) = Some ''invalid gpu quantity''"
    by (simp add: nvidia_def privileged_bad_container_def)
  from C6_all_privileged_unchanged [OF h1 h2] h1 v1 v2 show ?thesis by blast
qed

text \<open>
  C7. For a pod that reaches the scan and whose scan ends without an error, if
  \<open>hasResource\<close> is false, or if it is true and the target scheduler name is empty,
  \<open>Handle\<close> returns the patch response for the unchanged pod: the scheduler name and
  every other field are those of the request.
\<close>

theorem C7_no_claim_unchanged:
  assumes "reaches_scanning cfg pod"
    and "fst (scan matchers pod) = Inr hasResource"
    and "\<not> hasResource \<or> config_SchedulerName cfg = []"
  shows "fst (Evaluate pod cfg matchers) = Patched pod"
proof -
  obtain r calls where s: "scan matchers pod = (r, calls)" by (cases "scan matchers pod")
  with assms(2) have "scan matchers pod = (Inr hasResource, calls)" by simp
  then show ?thesis
    using assms(3) by (auto simp: Evaluate_scanning [OF assms(1)] decide_def)
qed

text \<open>
  Two instances: a pod of the default scheduler with no GPU limit and the target
  "hami-scheduler"; a pod with a GPU limit and an empty target.
\<close>

theorem C7_no_claim_unchanged_witness:
  "reaches_scanning (cfg_hami True) (mk_pod ''default-scheduler'' [] [plain_container])
   \<and> fst (scan [nvidia] (mk_pod ''default-scheduler'' [] [plain_container])) = Inr False
   \<and> fst (Evaluate (mk_pod ''default-scheduler'' [] [plain_container]) (cfg_hami True) [nvidia])
       = Patched (mk_pod ''default-scheduler'' [] [plain_container])
   \<and> reaches_scanning
       \<lparr>config_SchedulerName = [], config_ForceOverwriteDefaultScheduler = True\<rparr>
       (mk_pod [] [] [gpu_container])
   \<and> fst (scan [nvidia] (mk_pod [] [] [gpu_container])) = Inr True
   \<and> fst (Evaluate (mk_pod [] [] [gpu_container])
       \<lparr>config_SchedulerName = [], config_ForceOverwriteDefaultScheduler = True\<rparr> [nvidia])
       = Patched (mk_pod [] [] [gpu_container])"
proof -
  let ?pod = "mk_pod ''default-scheduler'' [] [plain_container]"
  let ?pod' = "mk_pod [] [] [gpu_container]"
  let ?cfg' = "\<lparr>config_SchedulerName = [], config_ForceOverwriteDefaultScheduler = True\<rparr>"
  have h1: "reaches_scanning (cfg_hami True) ?pod"
    by (simp add: Handle_defs example_defs)
  have h2: "fst (scan [nvidia] ?pod) = Inr False"
    by (simp add: scan_def privileged_def example_defs)
  have h3: "\<not> False \<or> config_SchedulerName (cfg_hami True) = []" by simp
  have g1: "reaches_scanning ?cfg' ?pod'"
    by (simp add: Handle_defs example_defs)
  have g2: "fst (scan [nvidia] ?pod') = Inr True"
    by (simp add: scan_def privileged_def example_defs)
  have g3: "\<not> True \<or> config_SchedulerName ?cfg' = []" by simp
  from C7_no_claim_unchanged [OF h1 h2 h3] C7_no_claim_unchanged [OF g1 g2 g3] h1 h2 g1 g2
  show ?thesis by blast
qed

text \<open>
  C8. When \<open>Handle\<close> returns the patch response for a pod, and no device fails on a
  container of that pod that is not privileged, \<open>Handle\<close> on that pod, with the same
  configuration and devices, allows it unchanged: it returns either the response "pod
  already has different scheduler assigned" or the patch response for the same pod. If
  the first call changed the pod, its scheduler name is the target scheduler name.
\<close>

theorem C8_second_evaluation_stable:
  assumes "fst (Evaluate pod cfg matchers) = Patched pod'"
    and "\<forall>c\<in>set (Containers (Spec pod')). \<not> privileged c \<longrightarrow>
           (\<forall>m\<in>set matchers. snd (m c pod') = None)"
  shows "(fst (Evaluate pod' cfg matchers) = Allowed ''pod already has different scheduler assigned''
          \<or> fst (Evaluate pod' cfg matchers) = Patched pod')
       \<and> (pod' \<noteq> pod \<longrightarrow> SchedulerName (Spec pod') = config_SchedulerName cfg)"
proof -
  from Evaluate_Patched [OF assms(1)] obtain h where
    r: "reaches_scanning cfg pod" and d: "decide cfg pod h = Patched pod'" by blast
  from decide_Patched [OF d] consider
    (same) "pod' = pod"
    | (mutated) "config_SchedulerName cfg \<noteq> []" "NodeName (Spec pod) = []"
        "pod' = pod\<lparr>Spec := (Spec pod)\<lparr>SchedulerName := config_SchedulerName cfg\<rparr>\<rparr>"
    by blast
  then show ?thesis
  proof cases
    case same
    with assms(1) show ?thesis by simp
  next
    case mutated
    from mutated(3) have name: "SchedulerName (Spec pod') = config_SchedulerName cfg" by simp
    from mutated(3) r have ctrs: "Containers (Spec pod') \<noteq> []"
      by (simp add: reaches_scanning_def)
    from mutated(2,3) have node: "NodeName (Spec pod') = []" by simp
    have again: "pod'\<lparr>Spec := (Spec pod')\<lparr>SchedulerName := config_SchedulerName cfg\<rparr>\<rparr> = pod'"
      using mutated(3) by simp
    have "fst (Evaluate pod' cfg matchers) = Allowed ''pod already has different scheduler assigned''
          \<or> fst (Evaluate pod' cfg matchers) = Patched pod'"
    proof (cases "different_scheduler cfg pod'")
      case True
      with ctrs show ?thesis by (simp add: Evaluate_def Handle_def)
    next
      case False
      with ctrs have r': "reaches_scanning cfg pod'" by (simp add: reaches_scanning_def)
      show ?thesis
        using node again
        by (simp add: Evaluate_scanning [OF r'] scan_ok [OF assms(2)] decide_def Let_def)
    qed
    with name show ?thesis by simp
  qed
qed

text \<open>
  Two instances, with the device \<open>nvidia\<close>: for the target "hami-scheduler" the second
  call stops at the check of the scheduler name; for the target "default-scheduler" it
  scans again and patches nothing.
\<close>

theorem C8_second_evaluation_stable_witness:
  "fst (Evaluate (mk_pod [] [] [gpu_container]) (cfg_hami True) [nvidia])
     = Patched (mk_pod ''hami-scheduler'' [] [gpu_container])
   \<and> fst (Evaluate (mk_pod ''hami-scheduler'' [] [gpu_container]) (cfg_hami True) [nvidia])
     = Allowed ''pod already has different scheduler assigned''
   \<and> fst (Evaluate (mk_pod [] [] [gpu_container]) cfg_default [nvidia])
     = Patched (mk_pod ''default-scheduler'' [] [gpu_container])
   \<and> fst (Evaluate (mk_pod ''default-scheduler'' [] [gpu_container]) cfg_default [nvidia])
     = Patched (mk_pod ''default-scheduler'' [] [gpu_container])"
proof -
  let ?pod = "mk_pod [] [] [gpu_container]"
  let ?pod1 = "mk_pod ''hami-scheduler'' [] [gpu_container]"
  let ?pod2 = "mk_pod ''default-scheduler'' [] [gpu_container]"
  have a1: "fst (Evaluate ?pod (cfg_hami True) [nvidia]) = Patched ?pod1"
    by (simp add: Handle_defs example_defs)
  have a2: "\<forall>c\<in>set (Containers (Spec ?pod1)). \<not> privileged c \<longrightarrow>
           (\<forall>m\<in>set [nvidia]. snd (m c ?pod1) = None)"
    by (simp add: example_defs)
  have a3: "fst (Evaluate ?pod1 (cfg_hami True) [nvidia]) \<noteq> Patched ?pod1"
    by (simp add: Handle_defs example_defs)
  have b1: "fst (Evaluate ?pod cfg_default [nvidia]) = Patched ?pod2"
    by (simp add: Handle_defs example_defs)
  have b2: "\<forall>c\<in>set (Containers (Spec ?pod2)). \<not> privileged c \<longrightarrow>
           (\<forall>m\<in>set [nvidia]. snd (m c ?pod2) = None)"
    by (simp add: example_defs)
  have b3: "fst (Evaluate ?pod2 cfg_default [nvidia])
       \<noteq> Allowed ''pod already has different scheduler assigned''"
    by (simp add: Handle_defs example_defs)
  from C8_second_evaluation_stable [OF a1 a2] C8_second_evaluation_stable [OF b1 b2]
    a1 a3 b1 b3
  show ?thesis by blast
qed

text \<open>
  The claim as stated, for every list of devices, fails when the target is the default
  scheduler name and a device fails on a pod of that scheduler: a device is given the
  pod, so its answer may change with the scheduler name. The first call rewrites the
  scheduler name, the second call passes the check of the scheduler name, scans again
  and returns the error of the device.
\<close>

theorem C8_failing_device_counterexample:
  "fst (Evaluate (mk_pod [] [] [gpu_container]) cfg_default [picky])
     = Patched (mk_pod ''default-scheduler'' [] [gpu_container])
   \<and> mk_pod ''default-scheduler'' [] [gpu_container] \<noteq> mk_pod [] [] [gpu_container]
   \<and> fst (Evaluate (mk_pod ''default-scheduler'' [] [gpu_container]) cfg_default [picky])
     = Errored 500 ''gpu pod on the default scheduler''"
  by (simp add: Handle_defs example_defs)

text \<open>
  C9. Whenever \<open>Handle\<close> returns a patch response, the pod that it carries has the
  containers, the namespace, the name, the UID and the node name of the request: it is
  the pod of the request with, at most, another scheduler name. The other responses
  carry no pod.
\<close>

theorem C9_frame_only_scheduler_name:
  assumes "fst (Evaluate pod cfg matchers) = Patched pod'"
  shows "Containers (Spec pod') = Containers (Spec pod)
       \<and> Namespace pod' = Namespace pod \<and> PodName pod' = PodName pod \<and> UID pod' = UID pod
       \<and> NodeName (Spec pod') = NodeName (Spec pod)
       \<and> pod' = pod\<lparr>Spec := (Spec pod)\<lparr>SchedulerName := SchedulerName (Spec pod')\<rparr>\<rparr>"
proof -
  from Evaluate_Patched [OF assms] obtain h where "decide cfg pod h = Patched pod'" by blast
  from decide_Patched [OF this] show ?thesis by auto
qed

text \<open>An instance: a pod with two containers whose scheduler name is rewritten.\<close>

theorem C9_frame_only_scheduler_name_witness:
  "fst (Evaluate (mk_pod [] [] [plain_container, gpu_container]) (cfg_hami True) [nvidia])
     = Patched (mk_pod ''hami-scheduler'' [] [plain_container, gpu_container])
   \<and> Containers (Spec (mk_pod ''hami-scheduler'' [] [plain_container, gpu_container]))
     = Containers (Spec (mk_pod [] [] [plain_container, gpu_container]))
   \<and> NodeName (Spec (mk_pod ''hami-scheduler'' [] [plain_container, gpu_container]))
     = NodeName (Spec (mk_pod [] [] [plain_container, gpu_container]))"
proof -
  have h: "fst (Evaluate (mk_pod [] [] [plain_container, gpu_container]) (cfg_hami True) [nvidia])
     = Patched (mk_pod ''hami-scheduler'' [] [plain_container, gpu_container])"
    by (simp add: Handle_defs example_defs)
  from C9_frame_only_scheduler_name [OF h] h show ?thesis by blast
qed

text \<open>
  C10. No device is asked for a privileged container: every call that \<open>Handle\<close>
  makes is for a container that is not privileged, and an error response carries the
  failure of a device that was asked for such a container. As long as the answers of the
  devices for the containers that are not privileged stay the same, neither the content
  of the privileged containers nor what the devices would answer for them has an effect:
  the calls are the same and the response is the same, but for the containers in the pod
  of a patch response.
\<close>

theorem C10_privileged_containers_ignored:
  assumes "length matchers' = length matchers"
    and "length ctrs' = length (Containers (Spec pod))"
    and "\<forall>i<length ctrs'. privileged (ctrs' ! i) = privileged (Containers (Spec pod) ! i)"
    and "\<forall>i<length ctrs'. \<not> privileged (Containers (Spec pod) ! i) \<longrightarrow>
           (\<forall>j<length matchers. (matchers' ! j) (ctrs' ! i) (with_containers pod ctrs')
                          = (matchers ! j) (Containers (Spec pod) ! i) pod)"
  shows "snd (Evaluate (with_containers pod ctrs') cfg matchers') = snd (Evaluate pod cfg matchers)
       \<and> fst (Evaluate (with_containers pod ctrs') cfg matchers') =
           (case fst (Evaluate pod cfg matchers) of
              Patched p \<Rightarrow> Patched (with_containers p ctrs')
            | r \<Rightarrow> r)
       \<and> (\<forall>cl\<in>set (snd (Evaluate pod cfg matchers)).
            fst cl < length (Containers (Spec pod)) \<and>
            \<not> privileged (Containers (Spec pod) ! fst cl))
       \<and> (\<forall>code err. fst (Evaluate pod cfg matchers) = Errored code err \<longrightarrow>
            (\<exists>c\<in>set (Containers (Spec pod)). \<not> privileged c \<and>
               (\<exists>m\<in>set matchers. snd (m c pod) = Some err)))"
proof -
  let ?pod' = "with_containers pod ctrs'"
  have s: "scan matchers' ?pod' = scan matchers pod"
    by (rule scan_cong2 [OF assms])
  have e: "(Containers (Spec ?pod') = []) = (Containers (Spec pod) = [])"
    using assms(2) by (auto simp: with_containers_def)
  have d: "different_scheduler cfg ?pod' = different_scheduler cfg pod"
    by (simp add: different_scheduler_def with_containers_def)
  have dec: "\<And>h. decide cfg ?pod' h =
      (case decide cfg pod h of Patched p \<Rightarrow> Patched (with_containers p ctrs') | r \<Rightarrow> r)"
    by (simp add: decide_def with_containers_def Let_def)
  have both: "Evaluate ?pod' cfg matchers' =
      (case fst (Evaluate pod cfg matchers) of
              Patched p \<Rightarrow> Patched (with_containers p ctrs')
            | r \<Rightarrow> r, snd (Evaluate pod cfg matchers))"
    by (simp add: Evaluate_def Handle_def s e d dec split: prod.splits sum.splits)
  have c3: "\<forall>cl\<in>set (snd (Evaluate pod cfg matchers)).
          fst cl < length (Containers (Spec pod)) \<and>
          \<not> privileged (Containers (Spec pod) ! fst cl)"
    using Evaluate_trace [of pod cfg matchers] scan_trace [of _ matchers pod] by auto
  have c4: "\<forall>code err. fst (Evaluate pod cfg matchers) = Errored code err \<longrightarrow>
          (\<exists>c\<in>set (Containers (Spec pod)). \<not> privileged c \<and>
             (\<exists>m\<in>set matchers. snd (m c pod) = Some err))"
    using Evaluate_Errored scan_Inl by blast
  from both c3 c4 show ?thesis by simp
qed

text \<open>
  An instance: the privileged container with the negative GPU quantity, on which
  \<open>nvidia\<close> would fail, is replaced by the privileged container with a valid GPU
  limit, and \<open>nvidia\<close> by \<open>strict\<close>, which fails on every privileged container.
  Both pods are patched after the one call for the second container.
\<close>

theorem C10_privileged_containers_ignored_witness:
  "length [strict] = length [nvidia]
   \<and> length [privileged_gpu_container, gpu_container]
       = length (Containers (Spec (mk_pod [] [] [privileged_bad_container, gpu_container])))
   \<and> snd (nvidia privileged_bad_container (mk_pod [] [] [privileged_bad_container, gpu_container]))
       = Some ''invalid gpu quantity''
   \<and> strict privileged_gpu_container (mk_pod [] [] [privileged_gpu_container, gpu_container])
       = (False, Some ''privileged container asks for a device'')
   \<and> Evaluate (mk_pod [] [] [privileged_bad_container, gpu_container]) (cfg_hami True) [nvidia]
       = (Patched (mk_pod ''hami-scheduler'' [] [privileged_bad_container, gpu_container]), [(1, 0)])
   \<and> Evaluate (with_containers (mk_pod [] [] [privileged_bad_container, gpu_container])
         [privileged_gpu_container, gpu_container]) (cfg_hami True) [strict]
       = (Patched (with_containers (mk_pod ''hami-scheduler'' [] [privileged_bad_container, gpu_container])
            [privileged_gpu_container, gpu_container]), [(1, 0)])"
proof -
  let ?pod = "mk_pod [] [] [privileged_bad_container, gpu_container]"
  let ?cs' = "[privileged_gpu_container, gpu_container]"
  have h1: "length [strict] = length [nvidia]" by simp
  have h2: "length ?cs' = length (Containers (Spec ?pod))" by (simp add: mk_pod_def)
  have h3: "\<forall>i<length ?cs'. privileged (?cs' ! i) = privileged (Containers (Spec ?pod) ! i)"
    by (simp add: less_Suc_eq mk_pod_def privileged_def privileged_gpu_container_def
        privileged_bad_container_def)
  have h4: "\<forall>i<length ?cs'. \<not> privileged (Containers (Spec ?pod) ! i) \<longrightarrow>
           (\<forall>j<length [nvidia]. ([strict] ! j) (?cs' ! i) (with_containers ?pod ?cs')
                          = ([nvidia] ! j) (Containers (Spec ?pod) ! i) ?pod)"
    by (simp add: less_Suc_eq mk_pod_def privileged_def privileged_bad_container_def
        gpu_container_def strict_def nvidia_def)
  have v1: "snd (nvidia privileged_bad_container ?pod) = Some ''invalid gpu quantity''"
    by (simp add: nvidia_def privileged_bad_container_def)
  have v2: "strict privileged_gpu_container (mk_pod [] [] ?cs')
       = (False, Some ''privileged container asks for a device'')"
    by (simp add: strict_def privileged_def privileged_gpu_container_def)
  have v3: "Evaluate ?pod (cfg_hami True) [nvidia]
       = (Patched (mk_pod ''hami-scheduler'' [] [privileged_bad_container, gpu_container]), [(1, 0)])"
    by (simp add: Handle_defs example_defs)
  from C10_privileged_containers_ignored [OF h1 h2 h3 h4, of "cfg_hami True"] h1 h2 v1 v2 v3 show ?thesis
    by (simp add: prod_eq_iff)
qed

text \<open>
  The claim as stated, for every device, fails for a device that reads the pod that it
  is given at line 88: asked for the second container, which is not privileged,
  \<open>whole_pod\<close> fails on the negative GPU quantity of the privileged first container.
  With a valid quantity in the privileged container the same pod is patched.
\<close>

theorem C10_pod_reading_device_counterexample:
  "privileged privileged_bad_container
   \<and> privileged privileged_gpu_container
   \<and> Evaluate (mk_pod [] [] [privileged_bad_container, gpu_container]) (cfg_hami True) [whole_pod]
       = (Errored 500 ''invalid gpu quantity in the pod'', [(1, 0)])
   \<and> Evaluate (mk_pod [] [] [privileged_gpu_container, gpu_container]) (cfg_hami True) [whole_pod]
       = (Patched (mk_pod ''hami-scheduler'' [] [privileged_gpu_container, gpu_container]), [(1, 0)])"
  by (simp add: Handle_defs example_defs whole_pod_def)

end
